theory Spec2Isabelle
  imports Complex_Main "HOL-Library.AList"
begin

section \<open>Values exchanged with the service\<close>

text \<open>
  A decoded JSON document. Python's \<open>dict\<close> is the association list of \<open>JObj\<close>, read
  with \<open>map_of\<close>; numbers are carried as the rational they denote.
\<close>

datatype json =
    JNull
  | JBool bool
  | JNum rat
  | JStr string
  | JArr "json list"
  | JObj "(string \<times> json) list"

text \<open>
  The exceptions of the \<open>requests\<close> library that the client catches as
  \<open>requests.exceptions.RequestException\<close>: a transport failure raised by
  \<open>session.get\<close>/\<open>session.post\<close>, the \<open>HTTPError\<close> of \<open>raise_for_status\<close>, and the
  \<open>JSONDecodeError\<close> of \<open>response.json()\<close>. In \<open>requests\<close> (2.27 and later) the last one
  is a subclass of both \<open>RequestException\<close> and \<open>json.JSONDecodeError\<close>, so either
  \<open>except\<close> clause of the source catches it.
\<close>

datatype request_exception =
    TransportError string
  | HTTPError nat
  | JSONDecodeError string

text \<open>A query or form parameter value: string, integer, float or list of strings.\<close>

datatype pval = PStr string | PInt int | PNum rat | PList "string list"

type_synonym params = "(string \<times> pval) list"

text \<open>
  The pieces of an f-string: literal text and interpolated values, kept apart so that no
  rendering of a value has to be fixed.
\<close>

datatype part =
    Lit string
  | StrV string
  | IntV int
  | Exc request_exception
  | Val json
  | Opt "json option"

text \<open>
  What a call can raise: the client's own \<open>HydrologyAPIError\<close> with its message, and the
  two built-in exceptions that pass through uncaught (\<open>.get\<close> on a status body that is not
  a dict, \<open>time.sleep\<close> of a negative interval).
\<close>

datatype err =
    HydrologyAPIError "part list"
  | AttributeError
  | ValueError

datatype payload = Json json | Text string

text \<open>The observable effects of a call, in the order they happen.\<close>

datatype event =
    Get string "params option" int
  | Post string params int
  | Sleep int
  | Warning "part list"
  | Info "part list"

record response =
  status_code :: nat
  headers :: "string \<Rightarrow> string option"
  resp_text :: string

text \<open>
  The world outside the client, as one call meets it: the reply to the \<open>k\<close>-th GET the
  call makes (URL, query parameters, timeout), the reply to its POST, the \<open>k\<close>-th reading
  it takes of \<open>time.time()\<close> (a float, carried as the rational it denotes), and the JSON
  decoder (\<open>Inl\<close> the message of the decode error).
\<close>

record world =
  session_get :: "nat \<Rightarrow> string \<Rightarrow> params option \<Rightarrow> int \<Rightarrow> request_exception + response"
  session_post :: "string \<Rightarrow> params \<Rightarrow> int \<Rightarrow> request_exception + response"
  time_time :: "nat \<Rightarrow> rat"
  json_loads :: "string \<Rightarrow> string + json"

record client =
  base_url :: string
  timeout :: int

definition BASE_URL :: string where
  "BASE_URL = ''http://environment.data.gov.uk/hydrology''"

definition OBSERVED_PROPERTIES :: "string list" where
  "OBSERVED_PROPERTIES =
     [''waterFlow'', ''waterLevel'', ''rainfall'', ''groundwaterLevel'',
      ''dissolved-oxygen'', ''fdom'', ''bga'', ''turbidity'', ''chlorophyll'',
      ''conductivity'', ''temperature'', ''ammonium'', ''nitrate'', ''ph'']"

definition OBSERVATION_TYPES :: "string list" where
  "OBSERVATION_TYPES = [''Qualified'', ''Measured'']"

definition STATION_STATUSES :: "string list" where
  "STATION_STATUSES = [''Active'', ''Suspended'', ''Closed'']"

definition QUALITY_FLAGS :: "string list" where
  "QUALITY_FLAGS = [''Good'', ''Estimated'', ''Suspect'', ''Unchecked'', ''Missing'']"

text \<open>\<open>HydrologyAPI.__init__\<close> with its defaults.\<close>

definition default_client :: client where
  "default_client = \<lparr>base_url = BASE_URL, timeout = 30\<rparr>"

section \<open>The request executor\<close>

text \<open>\<open>Response.raise_for_status\<close>: an \<open>HTTPError\<close> for the codes 400 to 599.\<close>

definition raise_for_status :: "response \<Rightarrow> request_exception option" where
  "raise_for_status r =
     (if 400 \<le> status_code r \<and> status_code r < 600 then Some (HTTPError (status_code r))
      else None)"

text \<open>\<open>Response.json\<close>: the decoded body, or the decode error.\<close>

definition response_json :: "world \<Rightarrow> response \<Rightarrow> request_exception + json" where
  "response_json w r =
     (case json_loads w (resp_text r) of
        Inl m \<Rightarrow> Inl (JSONDecodeError m)
      | Inr j \<Rightarrow> Inr j)"

text \<open>
  \<open>HydrologyAPI._make_request\<close> (lines 54-94): one GET of
  \<open>base_url + endpoint + "." + format\<close>.
\<close>

definition make_request ::
  "client \<Rightarrow> world \<Rightarrow> string \<Rightarrow> string \<Rightarrow> params option \<Rightarrow> (err + payload) \<times> event list"
where
  "make_request c w endpoint format ps =
     (let url = base_url c @ endpoint @ ''.'' @ format;
          tr = [Get url ps (timeout c)]
      in case session_get w 0 url ps (timeout c) of
           Inl e \<Rightarrow> (Inl (HydrologyAPIError [Lit ''API request failed: '', Exc e]), tr)
         | Inr r \<Rightarrow>
             (case raise_for_status r of
                Some e \<Rightarrow> (Inl (HydrologyAPIError [Lit ''API request failed: '', Exc e]), tr)
              | None \<Rightarrow>
                  if format = ''json'' then
                    (case response_json w r of
                       Inl e \<Rightarrow>
                         (Inl (HydrologyAPIError [Lit ''Failed to parse JSON response: '', Exc e]), tr)
                     | Inr j \<Rightarrow> (Inr (Json j), tr))
                  else if format = ''csv'' then (Inr (Text (resp_text r)), tr)
                  else (Inr (Text (resp_text r)), tr)))"

section \<open>Dates\<close>

record datetime =
  year :: nat
  month :: nat
  day :: nat
  hour :: nat
  minute :: nat
  second :: nat


definition digit_char :: "nat \<Rightarrow> char" where
  "digit_char n = char_of (48 + n mod 10)"

text \<open>The last \<open>w\<close> decimal digits of \<open>n\<close>, zero-filled: \<open>%02d\<close> on months and days.\<close>

fun zero_pad :: "nat \<Rightarrow> nat \<Rightarrow> string" where
  "zero_pad 0 n = []"
| "zero_pad (Suc w) n = zero_pad w (n div 10) @ [digit_char n]"

text \<open>The decimal digits of \<open>n\<close> with no fill: \<open>%d\<close>.\<close>

fun decimal :: "nat \<Rightarrow> string" where
  "decimal n = (if n < 10 then [digit_char n] else decimal (n div 10) @ [digit_char n])"

declare decimal.simps [simp del]

text \<open>
  \<open>d.strftime("%Y-%m-%d")\<close> as CPython on Linux (glibc) computes it: \<open>%Y\<close> is the year in
  decimal with no zero-fill (\<open>999\<close>, not \<open>0999\<close>), \<open>%m\<close> and \<open>%d\<close> are two digits.
\<close>

definition strftime_ymd :: "datetime \<Rightarrow> string" where
  "strftime_ymd d = decimal (year d) @ ''-'' @ zero_pad 2 (month d) @ ''-'' @ zero_pad 2 (day d)"

text \<open>A date argument: \<open>Union[str, datetime]\<close>.\<close>

datatype date_arg = DStr string | DTime datetime

text \<open>The local function \<open>_format_date\<close> (lines 354-357 and 430-433).\<close>

fun format_date :: "date_arg \<Rightarrow> string" where
  "format_date (DTime d) = strftime_ymd d"
| "format_date (DStr s) = s"




section \<open>Building query parameters\<close>

text \<open>Python truthiness of an optional string, number or date (\<open>if x:\<close>).\<close>

definition truthy_str :: "string option \<Rightarrow> bool" where
  "truthy_str x = (case x of None \<Rightarrow> False | Some s \<Rightarrow> s \<noteq> [])"

fun truthy_date :: "date_arg option \<Rightarrow> bool" where
  "truthy_date None = False"
| "truthy_date (Some (DStr s)) = (s \<noteq> [])"
| "truthy_date (Some (DTime d)) = True"

text \<open>\<open>if x: params[k] = x\<close> for an optional string.\<close>

definition set_str :: "string \<Rightarrow> string option \<Rightarrow> params \<Rightarrow> params" where
  "set_str k x ps =
     (case x of None \<Rightarrow> ps | Some s \<Rightarrow> if s = [] then ps else AList.update k (PStr s) ps)"

text \<open>\<open>if x: params[k] = _format_date(x)\<close> for an optional date.\<close>

definition set_date :: "string \<Rightarrow> date_arg option \<Rightarrow> params \<Rightarrow> params" where
  "set_date k x ps =
     (case x of
        None \<Rightarrow> ps
      | Some a \<Rightarrow> if truthy_date (Some a) then AList.update k (PStr (format_date a)) ps else ps)"

text \<open>\<open>if distance: params["dist"] = distance\<close>.\<close>

definition set_dist :: "rat option \<Rightarrow> params \<Rightarrow> params" where
  "set_dist distance ps =
     (case distance of
        None \<Rightarrow> ps
      | Some d \<Rightarrow> if d = 0 then ps else AList.update ''dist'' (PNum d) ps)"

text \<open>
  \<open>if a is not None and b is not None: params[ka] = a; params[kb] = b;
  if distance: params["dist"] = distance\<close>.
\<close>

definition set_point ::
  "string \<Rightarrow> string \<Rightarrow> rat option \<Rightarrow> rat option \<Rightarrow> rat option \<Rightarrow> params \<Rightarrow> params"
where
  "set_point ka kb a b distance ps =
     (case a of
        None \<Rightarrow> ps
      | Some x \<Rightarrow>
          (case b of
             None \<Rightarrow> ps
           | Some y \<Rightarrow> set_dist distance (AList.update kb (PNum y) (AList.update ka (PNum x) ps))))"

text \<open>\<open>if x: if x not in known: logger.warning(f"{label}{x}")\<close>.\<close>

definition warn_unknown :: "string list \<Rightarrow> string \<Rightarrow> string option \<Rightarrow> event list" where
  "warn_unknown known label x =
     (case x of
        None \<Rightarrow> []
      | Some s \<Rightarrow> if s \<noteq> [] \<and> s \<notin> set known then [Warning [Lit label, StrV s]] else [])"

section \<open>Read accessors\<close>

text \<open>The \<open>else\<close> branch of \<open>get_stations\<close> (lines 146-171): the filters and the warnings.\<close>

definition stations_filters ::
  "string option \<Rightarrow> string option \<Rightarrow> string option \<Rightarrow> string option \<Rightarrow> string option \<Rightarrow>
   string option \<Rightarrow> rat option \<Rightarrow> rat option \<Rightarrow> rat option \<Rightarrow> rat option \<Rightarrow> rat option \<Rightarrow>
   params \<Rightarrow> params \<times> event list"
where
  "stations_filters rloi_id wiski_id station_guid observed_property status search
       latitude longitude distance easting northing params =
     (let params = set_str ''RLOIid'' rloi_id params;
          params = set_str ''wiskiID'' wiski_id params;
          params = set_str ''stationGuid'' station_guid params;
          log = warn_unknown OBSERVED_PROPERTIES ''Unknown observed property: '' observed_property;
          params = set_str ''observedProperty'' observed_property params;
          log = log @ warn_unknown STATION_STATUSES ''Unknown status: '' status;
          params = set_str ''status.label'' status params;
          params = set_str ''search'' search params;
          params = set_point ''lat'' ''long'' latitude longitude distance params;
          params = set_point ''easting'' ''northing'' easting northing distance params
      in (params, log))"

text \<open>
  \<open>HydrologyAPI.get_stations\<close> (lines 96-173). The arguments are in the order of the
  source: \<open>station_id\<close>, \<open>rloi_id\<close>, \<open>wiski_id\<close>, \<open>station_guid\<close>, \<open>observed_property\<close>,
  \<open>status\<close>, \<open>search\<close>, \<open>latitude\<close>, \<open>longitude\<close>, \<open>distance\<close>, \<open>easting\<close>, \<open>northing\<close>,
  \<open>view\<close>, \<open>limit\<close>, \<open>offset\<close>, \<open>format\<close>.
\<close>

definition get_stations ::
  "client \<Rightarrow> world \<Rightarrow> string option \<Rightarrow> string option \<Rightarrow> string option \<Rightarrow> string option \<Rightarrow>
   string option \<Rightarrow> string option \<Rightarrow> string option \<Rightarrow> rat option \<Rightarrow> rat option \<Rightarrow>
   rat option \<Rightarrow> rat option \<Rightarrow> rat option \<Rightarrow> string \<Rightarrow> int \<Rightarrow> int \<Rightarrow> string \<Rightarrow>
   (err + payload) \<times> event list"
where
  "get_stations c w station_id rloi_id wiski_id station_guid observed_property status search
       latitude longitude distance easting northing view limit offset format =
     (let params = [(''_limit'', PInt limit), (''_offset'', PInt offset), (''_view'', PStr view)];
          listing =
            (case stations_filters rloi_id wiski_id station_guid observed_property status
                    search latitude longitude distance easting northing params of
               (ps, lg) \<Rightarrow> (''/id/stations'', ps, lg));
          (endpoint, params, log) =
            (case station_id of
               None \<Rightarrow> listing
             | Some sid \<Rightarrow> if sid \<noteq> [] then (''/id/stations/'' @ sid, params, []) else listing);
          (res, tr) =
            make_request c w endpoint format
              (if endpoint = ''/id/stations'' then Some params else None)
      in (res, log @ tr))"

text \<open>The parameters of \<open>get_open_stations\<close> (lines 208-228).\<close>

definition open_stations_params ::
  "date_arg \<Rightarrow> date_arg \<Rightarrow> string option \<Rightarrow> string option \<Rightarrow> string option \<Rightarrow>
   rat option \<Rightarrow> rat option \<Rightarrow> rat option \<Rightarrow> int \<Rightarrow> int \<Rightarrow> params"
where
  "open_stations_params from_date to_date observed_property status search
       latitude longitude distance limit offset =
     (let from_date_str = format_date from_date;
          to_date_str = format_date to_date;
          params = [(''from'', PStr from_date_str), (''to'', PStr to_date_str),
                    (''_limit'', PInt limit), (''_offset'', PInt offset)];
          params = set_str ''observedProperty'' observed_property params;
          params = set_str ''status.label'' status params;
          params = set_str ''search'' search params;
          params = set_point ''lat'' ''long'' latitude longitude distance params
      in params)"

text \<open>\<open>HydrologyAPI.get_open_stations\<close> (lines 175-230).\<close>

definition get_open_stations ::
  "client \<Rightarrow> world \<Rightarrow> date_arg \<Rightarrow> date_arg \<Rightarrow> string option \<Rightarrow> string option \<Rightarrow>
   string option \<Rightarrow> rat option \<Rightarrow> rat option \<Rightarrow> rat option \<Rightarrow> int \<Rightarrow> int \<Rightarrow> string \<Rightarrow>
   (err + payload) \<times> event list"
where
  "get_open_stations c w from_date to_date observed_property status search
       latitude longitude distance limit offset format =
     make_request c w ''/id/open/stations'' format
       (Some (open_stations_params from_date to_date observed_property status search
                latitude longitude distance limit offset))"

text \<open>The parameters of \<open>get_measures\<close> (lines 263-272).\<close>

definition measures_params ::
  "string option \<Rightarrow> string option \<Rightarrow> string option \<Rightarrow> string option \<Rightarrow> string \<Rightarrow> int \<Rightarrow> params"
where
  "measures_params station_guid station_wiski_id observed_property observation_type view limit =
     (let params = [(''_limit'', PInt limit), (''_view'', PStr view)];
          params = set_str ''station'' station_guid params;
          params = set_str ''station.wiskiID'' station_wiski_id params;
          params = set_str ''observedProperty'' observed_property params;
          params = set_str ''observationType'' observation_type params
      in params)"

text \<open>\<open>HydrologyAPI.get_measures\<close> (lines 232-274).\<close>

definition get_measures ::
  "client \<Rightarrow> world \<Rightarrow> string option \<Rightarrow> string option \<Rightarrow> string option \<Rightarrow> string option \<Rightarrow>
   string option \<Rightarrow> string \<Rightarrow> int \<Rightarrow> string \<Rightarrow> (err + payload) \<times> event list"
where
  "get_measures c w measure_id station_guid station_wiski_id observed_property
       observation_type view limit format =
     (let listing =
            make_request c w ''/id/measures'' format
              (Some (measures_params station_guid station_wiski_id observed_property
                       observation_type view limit))
      in case measure_id of
           None \<Rightarrow> listing
         | Some m \<Rightarrow>
             if m \<noteq> [] then make_request c w (''/id/measures/'' @ m) format None else listing)"

text \<open>The parameters of \<open>get_station_measures\<close> (lines 297-302).\<close>

definition station_measures_params :: "string option \<Rightarrow> string option \<Rightarrow> string \<Rightarrow> params" where
  "station_measures_params observed_property observation_type view =
     (let params = [(''_view'', PStr view)];
          params = set_str ''observedProperty'' observed_property params;
          params = set_str ''observationType'' observation_type params
      in params)"

text \<open>\<open>HydrologyAPI.get_station_measures\<close> (lines 276-305).\<close>

definition get_station_measures ::
  "client \<Rightarrow> world \<Rightarrow> string \<Rightarrow> string option \<Rightarrow> string option \<Rightarrow> string \<Rightarrow> string \<Rightarrow>
   (err + payload) \<times> event list"
where
  "get_station_measures c w station_guid observed_property observation_type view format =
     make_request c w (''/id/stations/'' @ station_guid @ ''/measures'') format
       (Some (station_measures_params observed_property observation_type view))"

text \<open>
  The parameters of \<open>get_readings\<close> (lines 352-386), arguments in the order of the source:
  \<open>measure_id\<close>, \<open>station_guid\<close>, \<open>station_rloi_id\<close>, \<open>station_wiski_id\<close>,
  \<open>observed_property\<close>, \<open>observation_type\<close>, \<open>date\<close>, \<open>min_date\<close>, \<open>max_date\<close>,
  \<open>min_inclusive_date\<close>, \<open>max_inclusive_date\<close>, \<open>earliest\<close>, \<open>latest\<close>, \<open>period\<close>, \<open>view\<close>,
  \<open>limit\<close>.
\<close>

definition readings_params ::
  "string option \<Rightarrow> string option \<Rightarrow> string option \<Rightarrow> string option \<Rightarrow> string option \<Rightarrow>
   string option \<Rightarrow> date_arg option \<Rightarrow> date_arg option \<Rightarrow> date_arg option \<Rightarrow>
   date_arg option \<Rightarrow> date_arg option \<Rightarrow> bool \<Rightarrow> bool \<Rightarrow> int option \<Rightarrow> string \<Rightarrow> int \<Rightarrow> params"
where
  "readings_params measure_id station_guid station_rloi_id station_wiski_id observed_property
       observation_type date min_date max_date min_inclusive_date max_inclusive_date
       earliest latest period view limit =
     (let params = [(''_limit'', PInt limit), (''_view'', PStr view)];
          params = set_str ''measure'' measure_id params;
          params = set_str ''station'' station_guid params;
          params = set_str ''station.RLOIid'' station_rloi_id params;
          params = set_str ''station.wiskiID'' station_wiski_id params;
          params = set_str ''observedProperty'' observed_property params;
          params = set_str ''observationType'' observation_type params;
          params = set_date ''date'' date params;
          params = set_date ''min-date'' min_date params;
          params = set_date ''max-date'' max_date params;
          params = set_date ''mineq-date'' min_inclusive_date params;
          params = set_date ''maxeq-date'' max_inclusive_date params;
          params = (if earliest then AList.update ''earliest'' (PStr []) params else params);
          params = (if latest then AList.update ''latest'' (PStr []) params else params);
          params = (case period of
                      None \<Rightarrow> params
                    | Some p \<Rightarrow> if p = 0 then params else AList.update ''period'' (PInt p) params)
      in params)"

text \<open>\<open>HydrologyAPI.get_readings\<close> (lines 307-388).\<close>

definition get_readings ::
  "client \<Rightarrow> world \<Rightarrow> string option \<Rightarrow> string option \<Rightarrow> string option \<Rightarrow> string option \<Rightarrow>
   string option \<Rightarrow> string option \<Rightarrow> date_arg option \<Rightarrow> date_arg option \<Rightarrow> date_arg option \<Rightarrow>
   date_arg option \<Rightarrow> date_arg option \<Rightarrow> bool \<Rightarrow> bool \<Rightarrow> int option \<Rightarrow> string \<Rightarrow> int \<Rightarrow>
   string \<Rightarrow> (err + payload) \<times> event list"
where
  "get_readings c w measure_id station_guid station_rloi_id station_wiski_id observed_property
       observation_type date min_date max_date min_inclusive_date max_inclusive_date
       earliest latest period view limit format =
     make_request c w ''/data/readings'' format
       (Some (readings_params measure_id station_guid station_rloi_id station_wiski_id
                observed_property observation_type date min_date max_date min_inclusive_date
                max_inclusive_date earliest latest period view limit))"

section \<open>Batch submission and polling\<close>

text \<open>
  One round of the loop over \<open>measure_ids\<close> (lines 438-441): create the list under
  \<open>"measure"\<close> if the key is absent, then append.
\<close>

definition add_measure :: "string \<Rightarrow> params \<Rightarrow> params" where
  "add_measure mid ps =
     (let ps = (if map_of ps ''measure'' = None then AList.update ''measure'' (PList []) ps else ps)
      in case map_of ps ''measure'' of
           Some (PList l) \<Rightarrow> AList.update ''measure'' (PList (l @ [mid])) ps
         | _ \<Rightarrow> ps)"

text \<open>The form parameters of \<open>get_batch_readings\<close> (lines 435-460).\<close>

definition batch_params ::
  "string list option \<Rightarrow> string option \<Rightarrow> string option \<Rightarrow> string option \<Rightarrow> string option \<Rightarrow>
   string option \<Rightarrow> date_arg option \<Rightarrow> date_arg option \<Rightarrow> date_arg option \<Rightarrow>
   date_arg option \<Rightarrow> params"
where
  "batch_params measure_ids station_guid station_rloi_id station_wiski_id observed_property
       observation_type min_date max_date min_inclusive_date max_inclusive_date =
     (let params = [];
          params = (case measure_ids of None \<Rightarrow> params | Some mids \<Rightarrow> fold add_measure mids params);
          params = set_str ''station'' station_guid params;
          params = set_str ''station.RLOIid'' station_rloi_id params;
          params = set_str ''station.wiskiID'' station_wiski_id params;
          params = set_str ''observedProperty'' observed_property params;
          params = set_str ''observationType'' observation_type params;
          params = set_date ''min-date'' min_date params;
          params = set_date ''max-date'' max_date params;
          params = set_date ''mineq-date'' min_inclusive_date params;
          params = set_date ''maxeq-date'' max_inclusive_date params
      in params)"

text \<open>
  The \<open>try\<close> block of one poll (lines 481-486): the \<open>i\<close>-th GET of the status URL, its
  status check and the decoding of its body.
\<close>

definition status_poll :: "client \<Rightarrow> world \<Rightarrow> string \<Rightarrow> nat \<Rightarrow> request_exception + json" where
  "status_poll c w status_url i =
     (case session_get w i status_url None (timeout c) of
        Inl e \<Rightarrow> Inl e
      | Inr status_response \<Rightarrow>
          (case raise_for_status status_response of
             Some e \<Rightarrow> Inl e
           | None \<Rightarrow> response_json w status_response))"

text \<open>The progress message of the loop (lines 493-494).\<close>

definition status_info :: "(string \<times> json) list \<Rightarrow> event" where
  "status_info d =
     Info [Lit ''Batch request status: '', Opt (map_of d ''status''),
           Lit '' (position: '', Opt (map_of d ''positionInQueue''), Lit '')'']"

text \<open>
  The \<open>while True\<close> loop (lines 476-495). Iteration \<open>i\<close> takes the reading \<open>i + 1\<close> of the
  clock (reading 0 is \<open>start_time\<close>) and makes the \<open>i\<close>-th GET; \<open>tr\<close> is what has
  happened so far. The value \<open>None\<close> is a loop that never ends.
\<close>

partial_function (option) poll_loop ::
  "client \<Rightarrow> world \<Rightarrow> string \<Rightarrow> int \<Rightarrow> int \<Rightarrow> nat \<Rightarrow> event list \<Rightarrow>
   ((err + json) \<times> event list) option"
where
  "poll_loop c w status_url poll_interval max_wait_time i tr =
     (if of_int max_wait_time < time_time w (Suc i) - time_time w 0
      then Some (Inl (HydrologyAPIError [Lit ''Batch request timed out after '', IntV max_wait_time, Lit '' seconds'']), tr)
      else
        (case status_poll c w status_url i of
           Inl e \<Rightarrow>
             Some (Inl (HydrologyAPIError [Lit ''Failed to check batch status: '', Exc e]),
                   tr @ [Get status_url None (timeout c)])
         | Inr status_data \<Rightarrow>
             (case status_data of
                JObj d \<Rightarrow>
                  if map_of d ''status'' = Some (JStr ''Completed'')
                  then Some (Inr status_data, tr @ [Get status_url None (timeout c)])
                  else if map_of d ''status'' = Some (JStr ''Failed'')
                  then Some (Inl (HydrologyAPIError [Lit ''Batch request failed: '', Val status_data]),
                             tr @ [Get status_url None (timeout c)])
                  else if poll_interval < 0
                  then Some (Inl ValueError,
                             tr @ [Get status_url None (timeout c), status_info d])
                  else poll_loop c w status_url poll_interval max_wait_time (Suc i)
                         (tr @ [Get status_url None (timeout c), status_info d,
                                Sleep poll_interval])
              | _ \<Rightarrow> Some (Inl AttributeError, tr @ [Get status_url None (timeout c)]))))"

text \<open>
  \<open>HydrologyAPI.get_batch_readings\<close> (lines 390-495), arguments in the order of the source:
  \<open>measure_ids\<close>, \<open>station_guid\<close>, \<open>station_rloi_id\<close>, \<open>station_wiski_id\<close>,
  \<open>observed_property\<close>, \<open>observation_type\<close>, \<open>min_date\<close>, \<open>max_date\<close>,
  \<open>min_inclusive_date\<close>, \<open>max_inclusive_date\<close>, \<open>format\<close>, \<open>poll_interval\<close>,
  \<open>max_wait_time\<close>.
\<close>

definition get_batch_readings ::
  "client \<Rightarrow> world \<Rightarrow> string list option \<Rightarrow> string option \<Rightarrow> string option \<Rightarrow> string option \<Rightarrow>
   string option \<Rightarrow> string option \<Rightarrow> date_arg option \<Rightarrow> date_arg option \<Rightarrow> date_arg option \<Rightarrow>
   date_arg option \<Rightarrow> string \<Rightarrow> int \<Rightarrow> int \<Rightarrow> ((err + json) \<times> event list) option"
where
  "get_batch_readings c w measure_ids station_guid station_rloi_id station_wiski_id
       observed_property observation_type min_date max_date min_inclusive_date
       max_inclusive_date format poll_interval max_wait_time =
     (let params = batch_params measure_ids station_guid station_rloi_id station_wiski_id
                     observed_property observation_type min_date max_date min_inclusive_date
                     max_inclusive_date;
          url = base_url c @ ''/data/batch.json'';
          tr = [Post url params (timeout c)]
      in case session_post w url params (timeout c) of
           Inl e \<Rightarrow>
             Some (Inl (HydrologyAPIError [Lit ''Failed to submit batch request: '', Exc e]), tr)
         | Inr response \<Rightarrow>
             (case raise_for_status response of
                Some e \<Rightarrow>
                  Some (Inl (HydrologyAPIError [Lit ''Failed to submit batch request: '', Exc e]),
                        tr)
              | None \<Rightarrow>
                  (case headers response ''Location'' of
                     None \<Rightarrow>
                       Some (Inl (HydrologyAPIError
                                    [Lit ''No status URL provided in batch response'']), tr)
                   | Some status_url \<Rightarrow>
                       if status_url = []
                       then Some (Inl (HydrologyAPIError
                                         [Lit ''No status URL provided in batch response'']), tr)
                       else poll_loop c w status_url poll_interval max_wait_time 0 tr)))"



section \<open>Notions used to state the batch properties\<close>

text \<open>
  The elapsed-time check of iteration \<open>i\<close> passes (line 478 does not raise); the status
  accepted by the POST (lines 465-472 reach the loop with this status URL); poll \<open>i\<close>
  answers with a dict whose status is neither \<open>Completed\<close> nor \<open>Failed\<close>; the events
  of such an iteration, and of the first \<open>k\<close> of them.
\<close>

definition in_time :: "world \<Rightarrow> int \<Rightarrow> nat \<Rightarrow> bool" where
  "in_time w max_wait_time i \<longleftrightarrow>
     \<not> of_int max_wait_time < time_time w (Suc i) - time_time w 0"

definition accepted :: "client \<Rightarrow> world \<Rightarrow> params \<Rightarrow> string \<Rightarrow> bool" where
  "accepted c w ps status_url \<longleftrightarrow>
     (case session_post w (base_url c @ ''/data/batch.json'') ps (timeout c) of
        Inl e \<Rightarrow> False
      | Inr r \<Rightarrow>
          raise_for_status r = None \<and> headers r ''Location'' = Some status_url \<and>
          status_url \<noteq> [])"

definition pending :: "client \<Rightarrow> world \<Rightarrow> string \<Rightarrow> nat \<Rightarrow> bool" where
  "pending c w status_url i \<longleftrightarrow>
     (case status_poll c w status_url i of
        Inr (JObj d) \<Rightarrow>
          map_of d ''status'' \<noteq> Some (JStr ''Completed'') \<and>
          map_of d ''status'' \<noteq> Some (JStr ''Failed'')
      | _ \<Rightarrow> False)"

definition pending_round :: "client \<Rightarrow> world \<Rightarrow> string \<Rightarrow> int \<Rightarrow> nat \<Rightarrow> event list" where
  "pending_round c w status_url poll_interval i =
     (case status_poll c w status_url i of
        Inr (JObj d) \<Rightarrow> [Get status_url None (timeout c), status_info d, Sleep poll_interval]
      | _ \<Rightarrow> [])"

fun rounds :: "client \<Rightarrow> world \<Rightarrow> string \<Rightarrow> int \<Rightarrow> nat \<Rightarrow> event list" where
  "rounds c w status_url poll_interval 0 = []"
| "rounds c w status_url poll_interval (Suc k) =
     rounds c w status_url poll_interval k @ pending_round c w status_url poll_interval k"

section \<open>Mocked services for the examples\<close>

text \<open>
  A decoder that knows three status bodies, replies with and without a \<open>Location\<close>
  header, and a world assembled from a POST reply, the replies to the successive GETs and
  the readings of the clock.
\<close>

definition mock_loads :: "string \<Rightarrow> string + json" where
  "mock_loads s =
     (if s = ''completed'' then
        Inr (JObj [(''status'', JStr ''Completed''), (''url'', JStr ''http://host/result.csv'')])
      else if s = ''failed'' then Inr (JObj [(''status'', JStr ''Failed'')])
      else if s = ''running'' then
        Inr (JObj [(''status'', JStr ''Running''), (''positionInQueue'', JNum 0)])
      else Inl ''Expecting value'')"

definition ok_reply :: "string \<Rightarrow> request_exception + response" where
  "ok_reply body = Inr \<lparr>status_code = 200, headers = (\<lambda>h. None), resp_text = body\<rparr>"

definition accepted_reply :: "request_exception + response" where
  "accepted_reply =
     Inr \<lparr>status_code = 202,
          headers = (\<lambda>h. if h = ''Location'' then Some ''http://host/status/1'' else None),
          resp_text = []\<rparr>"

definition mock_world ::
  "(request_exception + response) \<Rightarrow> (nat \<Rightarrow> request_exception + response) \<Rightarrow> (nat \<Rightarrow> rat) \<Rightarrow> world"
where
  "mock_world post gets clock =
     \<lparr>session_get = (\<lambda>k url ps t. gets k), session_post = (\<lambda>url ps t. post),
      time_time = clock, json_loads = mock_loads\<rparr>"

definition garbage_world :: world where
  "garbage_world = mock_world accepted_reply (\<lambda>k. ok_reply ''<html>'') (\<lambda>k. 0)"

definition completed_world :: world where
  "completed_world = mock_world accepted_reply (\<lambda>k. ok_reply ''completed'') (\<lambda>k. of_nat k)"

definition running_world :: world where
  "running_world = mock_world accepted_reply (\<lambda>k. ok_reply ''running'') (\<lambda>k. 1000 * of_nat k)"



definition rejecting_world :: world where
  "rejecting_world = mock_world (ok_reply []) (\<lambda>k. ok_reply ''completed'') (\<lambda>k. of_nat k)"

definition offline_world :: world where
  "offline_world =
     mock_world (Inl (TransportError ''connection refused'')) (\<lambda>k. ok_reply ''completed'')
       (\<lambda>k. of_nat k)"



section \<open>Auxiliary facts\<close>

lemma make_request_events:
  "snd (make_request c w endpoint format ps) =
     [Get (base_url c @ endpoint @ ''.'' @ format) ps (timeout c)]"
  by (simp add: make_request_def Let_def split: sum.splits option.splits)

lemma map_of_set_str:
  "map_of (set_str k x ps) k' =
     (if k' = k \<and> truthy_str x then map_option PStr x else map_of ps k')"
  by (simp add: set_str_def truthy_str_def update_conv' split: option.splits)

lemma map_of_set_date:
  "map_of (set_date k x ps) k' =
     (if k' = k \<and> truthy_date x then map_option (\<lambda>a. PStr (format_date a)) x else map_of ps k')"
  by (cases x) (simp_all add: set_date_def update_conv')

















subsection \<open>The poll loop\<close>

lemma poll_loop_timed_out:
  "\<not> in_time w mw i \<Longrightarrow> poll_loop c w url iv mw i tr = Some (Inl (HydrologyAPIError [Lit ''Batch request timed out after '', IntV mw, Lit '' seconds'']), tr)"
  by (subst poll_loop.simps) (simp add: in_time_def)

lemma poll_loop_pending:
  "in_time w mw i \<Longrightarrow> pending c w url i \<Longrightarrow> 0 \<le> iv \<Longrightarrow>
   poll_loop c w url iv mw i tr =
     poll_loop c w url iv mw (Suc i) (tr @ pending_round c w url iv i)"
  by (subst poll_loop.simps)
     (auto simp: in_time_def pending_def pending_round_def split: sum.splits json.splits)

lemma poll_loop_completed:
  "in_time w mw i \<Longrightarrow> status_poll c w url i = Inr (JObj d) \<Longrightarrow>
   map_of d ''status'' = Some (JStr ''Completed'') \<Longrightarrow>
   poll_loop c w url iv mw i tr = Some (Inr (JObj d), tr @ [Get url None (timeout c)])"
  by (subst poll_loop.simps) (simp add: in_time_def)



lemma poll_loop_rounds:
  "0 \<le> iv \<Longrightarrow> (\<And>j. j < k \<Longrightarrow> in_time w mw j \<and> pending c w url j) \<Longrightarrow>
   poll_loop c w url iv mw 0 tr = poll_loop c w url iv mw k (tr @ rounds c w url iv k)"
proof (induction k)
  case 0
  show ?case by simp
next
  case (Suc k)
  have "poll_loop c w url iv mw 0 tr = poll_loop c w url iv mw k (tr @ rounds c w url iv k)"
    using Suc.prems by (intro Suc.IH) simp_all
  also have "\<dots> = poll_loop c w url iv mw (Suc k)
                     ((tr @ rounds c w url iv k) @ pending_round c w url iv k)"
    using Suc.prems by (intro poll_loop_pending) simp_all
  finally show ?case by simp
qed

lemma get_batch_readings_accepted:
  "accepted c w (batch_params mids sg srl swi op ot mind maxd mineq maxeq) url \<Longrightarrow>
   get_batch_readings c w mids sg srl swi op ot mind maxd mineq maxeq fmt iv mw =
     poll_loop c w url iv mw 0
       [Post (base_url c @ ''/data/batch.json'')
          (batch_params mids sg srl swi op ot mind maxd mineq maxeq) (timeout c)]"
  by (simp add: get_batch_readings_def accepted_def Let_def split: sum.splits option.splits)

lemma poll_loop_extends:
  assumes run: "poll_loop c w url iv mw i tr = Some y"
  shows "\<exists>x. snd y = tr @ x"
proof (rule poll_loop.raw_induct
    [where P = "\<lambda>c w url iv mw i tr y. \<exists>x. snd y = tr @ x", OF _ run], goal_cases)
  case (1 f c w status_url poll_interval max_wait_time i tr ca)
  show ?case
    using 1(2)
    by (auto split: if_splits sum.splits json.splits dest!: 1(1))
qed


subsection \<open>The mocked services\<close>

lemma no_filters: "batch_params None None None None None None None None None None = []"
  by (simp add: batch_params_def set_str_def set_date_def)

lemmas mock_simps =
  mock_world_def accepted_reply_def ok_reply_def mock_loads_def raise_for_status_def
  response_json_def status_poll_def default_client_def

lemma mock_accepted:
  "accepted default_client (mock_world accepted_reply gets clock) [] ''http://host/status/1''"
  by (simp add: accepted_def mock_simps)

lemma mock_in_time:
  "in_time (mock_world post gets (\<lambda>k. of_nat k)) 3600 0"
  "in_time (mock_world post gets (\<lambda>k. of_nat k)) 3600 1"
  by (simp_all add: in_time_def mock_simps)

lemma running_world_pending: "pending default_client running_world ''http://host/status/1'' j"
  by (simp add: pending_def running_world_def mock_simps)

lemma running_world_in_time: "in_time running_world 3600 j \<longleftrightarrow> j < 3"
proof -
  have "in_time running_world 3600 j \<longleftrightarrow> \<not> (of_nat 3600 :: rat) < of_nat (1000 * Suc j)"
    by (simp add: in_time_def running_world_def mock_simps)
  also have "\<dots> \<longleftrightarrow> \<not> 3600 < 1000 * Suc j"
    by (simp only: of_nat_less_iff)
  also have "\<dots> \<longleftrightarrow> j < 3"
    by auto
  finally show ?thesis .
qed



lemma running_world_run:
  "get_batch_readings default_client running_world None None None None None None None None
     None None ''csv'' 5 3600 =
   Some (Inl (HydrologyAPIError
                [Lit ''Batch request timed out after '', IntV 3600, Lit '' seconds'']),
         Post (base_url default_client @ ''/data/batch.json'')
           (batch_params None None None None None None None None None None)
           (timeout default_client)
         # rounds default_client running_world ''http://host/status/1'' 5 3)"
proof -
  have a: "accepted default_client running_world
             (batch_params None None None None None None None None None None)
             ''http://host/status/1''"
    unfolding running_world_def no_filters by (rule mock_accepted)
  have late: "\<not> in_time running_world 3600 3"
    by (simp add: running_world_in_time)
  have "poll_loop default_client running_world ''http://host/status/1'' 5 3600 0 tr =
        poll_loop default_client running_world ''http://host/status/1'' 5 3600 3
          (tr @ rounds default_client running_world ''http://host/status/1'' 5 3)" for tr
    by (intro poll_loop_rounds) (simp_all add: running_world_in_time running_world_pending)
  then show ?thesis
    unfolding get_batch_readings_accepted [OF a]
    by (simp add: poll_loop_timed_out [OF late])
qed

subsection \<open>Query parameters of the read accessors\<close>

lemma map_of_set_dist:
  "k \<noteq> ''dist'' \<Longrightarrow> map_of (set_dist distance ps) k = map_of ps k"
  by (simp add: set_dist_def update_conv' split: option.splits)

lemma map_of_set_point:
  "k \<noteq> ''dist'' \<Longrightarrow> k \<noteq> ka \<Longrightarrow> k \<noteq> kb \<Longrightarrow>
   map_of (set_point ka kb a b distance ps) k = map_of ps k"
  by (simp add: set_point_def map_of_set_dist update_conv' split: option.splits)


lemma map_of_set_date_other: "k \<noteq> k' \<Longrightarrow> map_of (set_date k' x ps) k = map_of ps k"
  by (simp add: set_date_def update_conv' split: option.splits)


lemma map_of_if_update:
  "k \<noteq> k' \<Longrightarrow> map_of (if b then AList.update k' v ps else ps) k = map_of ps k"
  by (simp add: update_conv')

lemma map_of_case_period:
  "k \<noteq> k' \<Longrightarrow>
   map_of (case period of None \<Rightarrow> ps
           | Some p \<Rightarrow> if p = 0 then ps else AList.update k' (f p) ps) k = map_of ps k"
  by (cases period) (simp_all add: update_conv')



lemma single_lookup_events:
  "sid \<noteq> [] \<Longrightarrow>
   snd (get_stations c w (Some sid) rloi_id wiski_id station_guid observed_property status
          search latitude longitude distance easting northing view limit offset fmt) =
     [Get (base_url c @ ''/id/stations/'' @ sid @ ''.'' @ fmt) None (timeout c)]"
  "m \<noteq> [] \<Longrightarrow>
   snd (get_measures c w (Some m) station_guid station_wiski_id observed_property
          observation_type view limit fmt) =
     [Get (base_url c @ ''/id/measures/'' @ m @ ''.'' @ fmt) None (timeout c)]"
  by (simp_all add: get_stations_def get_measures_def Let_def split_beta make_request_events)

lemma get_stations_listing:
  assumes "station_id = None \<or> station_id = Some []"
  shows "snd (get_stations c w station_id rloi_id wiski_id station_guid observed_property status
                search latitude longitude distance easting northing view limit offset fmt) =
         snd (stations_filters rloi_id wiski_id station_guid observed_property status search
                latitude longitude distance easting northing
                [(''_limit'', PInt limit), (''_offset'', PInt offset), (''_view'', PStr view)]) @
         [Get (base_url c @ ''/id/stations.'' @ fmt)
            (Some (fst (stations_filters rloi_id wiski_id station_guid observed_property status
                          search latitude longitude distance easting northing
                          [(''_limit'', PInt limit), (''_offset'', PInt offset),
                           (''_view'', PStr view)])))
            (timeout c)]"
  using assms
  by (auto simp: get_stations_def Let_def split_beta make_request_events)

lemma stations_filters_log:
  "snd (stations_filters rloi_id wiski_id station_guid observed_property status search
          latitude longitude distance easting northing params) =
   warn_unknown OBSERVED_PROPERTIES ''Unknown observed property: '' observed_property @
   warn_unknown STATION_STATUSES ''Unknown status: '' status"
  by (simp add: stations_filters_def Let_def)

lemma stations_filters_sent:
  "map_of (fst (stations_filters rloi_id wiski_id station_guid (Some p) status search
                  latitude longitude distance easting northing params)) ''observedProperty'' =
     (if p = [] then map_of params ''observedProperty'' else Some (PStr p))"
  "map_of (fst (stations_filters rloi_id wiski_id station_guid observed_property (Some s) search
                  latitude longitude distance easting northing params)) ''status.label'' =
     (if s = [] then map_of params ''status.label'' else Some (PStr s))"
  by (simp_all add: stations_filters_def Let_def map_of_set_str map_of_set_point truthy_str_def)

lemma warn_unknown_Some:
  "p \<noteq> [] \<Longrightarrow> p \<notin> set known \<Longrightarrow> warn_unknown known label (Some p) = [Warning [Lit label, StrV p]]"
  by (simp add: warn_unknown_def)

lemma other_params_sent:
  "p \<noteq> [] \<Longrightarrow>
   map_of (open_stations_params from_date to_date (Some p) status search latitude longitude
             distance limit offset) ''observedProperty'' = Some (PStr p)"
  "s \<noteq> [] \<Longrightarrow>
   map_of (open_stations_params from_date to_date observed_property (Some s) search latitude
             longitude distance limit offset) ''status.label'' = Some (PStr s)"
  "p \<noteq> [] \<Longrightarrow>
   map_of (measures_params station_guid station_wiski_id (Some p) observation_type view limit)
     ''observedProperty'' = Some (PStr p)"
  "p \<noteq> [] \<Longrightarrow>
   map_of (station_measures_params (Some p) observation_type view) ''observedProperty'' =
     Some (PStr p)"
  "p \<noteq> [] \<Longrightarrow>
   map_of (readings_params measure_id station_guid station_rloi_id station_wiski_id (Some p)
             observation_type date min_date max_date min_inclusive_date max_inclusive_date
             earliest latest period view limit) ''observedProperty'' = Some (PStr p)"
  by (simp_all add: open_stations_params_def measures_params_def station_measures_params_def
        readings_params_def Let_def map_of_set_str map_of_set_point truthy_str_def
        map_of_if_update map_of_case_period map_of_set_date_other)

section \<open>The request executor: JSON and CSV\<close>

text \<open>
  Claim C6. A request in format \<open>json\<close> whose response arrives with a good status and a
  body that the decoder rejects raises \<open>HydrologyAPIError\<close> with the message
  "Failed to parse JSON response: ..." (the decode error of the specification); a
  request in format \<open>csv\<close> whose response arrives with a good status returns exactly the
  text of its body. Either way exactly one GET of \<open>base_url + endpoint + "." + format\<close> is
  made.
\<close>

theorem make_request_json_csv:
  "(session_get w 0 (base_url c @ endpoint @ ''.json'') ps (timeout c) = Inr rj \<and>
    raise_for_status rj = None \<and> json_loads w (resp_text rj) = Inl m \<longrightarrow>
      make_request c w endpoint ''json'' ps =
        (Inl (HydrologyAPIError [Lit ''Failed to parse JSON response: '', Exc (JSONDecodeError m)]),
         [Get (base_url c @ endpoint @ ''.json'') ps (timeout c)])) \<and>
   (session_get w 0 (base_url c @ endpoint @ ''.csv'') ps (timeout c) = Inr rc \<and>
    raise_for_status rc = None \<longrightarrow>
      make_request c w endpoint ''csv'' ps =
        (Inr (Text (resp_text rc)), [Get (base_url c @ endpoint @ ''.csv'') ps (timeout c)]))"
  by (simp add: make_request_def response_json_def)

theorem make_request_json_csv_witness:
  "session_get garbage_world 0 (base_url default_client @ ''/id/stations'' @ ''.json'') None
     (timeout default_client) = ok_reply ''<html>'' \<and>
   raise_for_status \<lparr>status_code = 200, headers = (\<lambda>h. None), resp_text = ''<html>''\<rparr> = None \<and>
   json_loads garbage_world ''<html>'' = Inl ''Expecting value'' \<and>
   fst (make_request default_client garbage_world ''/id/stations'' ''json'' None) =
     Inl (HydrologyAPIError
            [Lit ''Failed to parse JSON response: '', Exc (JSONDecodeError ''Expecting value'')]) \<and>
   fst (make_request default_client garbage_world ''/id/stations'' ''csv'' None) =
     Inr (Text ''<html>'')"
proof -
  let ?r = "\<lparr>status_code = 200, headers = (\<lambda>h. None), resp_text = ''<html>''\<rparr>"
  have g: "session_get garbage_world 0 u None (timeout default_client) = Inr ?r" for u
    by (simp add: garbage_world_def mock_world_def ok_reply_def)
  have s: "raise_for_status ?r = None"
    by (simp add: raise_for_status_def)
  have l: "json_loads garbage_world (resp_text ?r) = Inl ''Expecting value''"
    by (simp add: garbage_world_def mock_world_def mock_loads_def)
  note t = make_request_json_csv [of garbage_world default_client "''/id/stations''" None ?r
      "''Expecting value''" ?r]
  from t g s l show ?thesis
    by (simp add: ok_reply_def)
qed

section \<open>Batch submission and polling: the properties\<close>

text \<open>
  Claim C1. When the POST is accepted with a status URL, the first elapsed-time check
  passes, and the status endpoint answers the first GET with a good status and a body
  that decodes to a dict whose status is \<open>Completed\<close>, \<open>get_batch_readings\<close> returns that
  whole dict; what has happened is the POST and one GET of the status URL, and no
  \<open>time.sleep\<close>.
\<close>

theorem completed_on_first_poll:
  assumes "accepted c w (batch_params mids sg srl swi op ot mind maxd mineq maxeq) url"
    and "in_time w mw 0"
    and "session_get w 0 url None (timeout c) = Inr r"
    and "raise_for_status r = None"
    and "json_loads w (resp_text r) = Inr (JObj d)"
    and "map_of d ''status'' = Some (JStr ''Completed'')"
  shows "get_batch_readings c w mids sg srl swi op ot mind maxd mineq maxeq fmt iv mw =
           Some (Inr (JObj d),
                 [Post (base_url c @ ''/data/batch.json'')
                    (batch_params mids sg srl swi op ot mind maxd mineq maxeq) (timeout c),
                  Get url None (timeout c)])"
proof -
  have poll: "status_poll c w url 0 = Inr (JObj d)"
    using assms(3,4,5) by (simp add: status_poll_def response_json_def)
  from assms(1,2,6) poll show ?thesis
    by (simp add: get_batch_readings_accepted poll_loop_completed)
qed

theorem completed_on_first_poll_witness:
  "get_batch_readings default_client completed_world None None None None None None None None
     None None ''csv'' 5 3600 =
   Some (Inr (JObj [(''status'', JStr ''Completed''), (''url'', JStr ''http://host/result.csv'')]),
         [Post (BASE_URL @ ''/data/batch.json'') [] 30, Get ''http://host/status/1'' None 30])"
proof -
  let ?d = "[(''status'', JStr ''Completed''), (''url'', JStr ''http://host/result.csv'')]"
  let ?r = "\<lparr>status_code = 200, headers = (\<lambda>h. None), resp_text = ''completed''\<rparr>"
  have a: "accepted default_client completed_world
             (batch_params None None None None None None None None None None)
             ''http://host/status/1''"
    unfolding completed_world_def no_filters by (rule mock_accepted)
  have b: "in_time completed_world 3600 0"
    unfolding completed_world_def by (rule mock_in_time)
  have c: "session_get completed_world 0 ''http://host/status/1'' None (timeout default_client) =
             Inr ?r"
    by (simp add: completed_world_def mock_world_def ok_reply_def)
  have d: "raise_for_status ?r = None"
    by (simp add: raise_for_status_def)
  have e: "json_loads completed_world (resp_text ?r) = Inr (JObj ?d)"
    by (simp add: completed_world_def mock_world_def mock_loads_def)
  have f: "map_of ?d ''status'' = Some (JStr ''Completed'')"
    by simp
  from completed_on_first_poll [OF a b c d e f, of "''csv''" 5] show ?thesis
    by (simp add: no_filters default_client_def)
qed



text \<open>
  Claim C3. When the POST raises, or its response has an error status, the call raises
  \<open>HydrologyAPIError\<close> "Failed to submit batch request: ..."; when the response has a good
  status and no \<open>Location\<close> header (or an empty one), it raises \<open>HydrologyAPIError\<close>
  "No status URL provided in batch response". In both cases the POST is the only event:
  no GET of any status URL is made.
\<close>

theorem submission_failure_no_polling:
  "(session_post w (base_url c @ ''/data/batch.json'')
      (batch_params mids sg srl swi op ot mind maxd mineq maxeq) (timeout c) = Inl e \<or>
    (\<exists>r. session_post w (base_url c @ ''/data/batch.json'')
            (batch_params mids sg srl swi op ot mind maxd mineq maxeq) (timeout c) = Inr r \<and>
         raise_for_status r = Some e) \<longrightarrow>
    get_batch_readings c w mids sg srl swi op ot mind maxd mineq maxeq fmt iv mw =
      Some (Inl (HydrologyAPIError [Lit ''Failed to submit batch request: '', Exc e]),
            [Post (base_url c @ ''/data/batch.json'')
               (batch_params mids sg srl swi op ot mind maxd mineq maxeq) (timeout c)])) \<and>
   ((\<exists>r. session_post w (base_url c @ ''/data/batch.json'')
            (batch_params mids sg srl swi op ot mind maxd mineq maxeq) (timeout c) = Inr r \<and>
         raise_for_status r = None \<and>
         (headers r ''Location'' = None \<or> headers r ''Location'' = Some [])) \<longrightarrow>
    get_batch_readings c w mids sg srl swi op ot mind maxd mineq maxeq fmt iv mw =
      Some (Inl (HydrologyAPIError [Lit ''No status URL provided in batch response'']),
            [Post (base_url c @ ''/data/batch.json'')
               (batch_params mids sg srl swi op ot mind maxd mineq maxeq) (timeout c)]))"
  by (auto simp: get_batch_readings_def Let_def)

theorem submission_failure_no_polling_witness:
  "get_batch_readings default_client offline_world None None None None None None None None
     None None ''csv'' 5 3600 =
   Some (Inl (HydrologyAPIError
                [Lit ''Failed to submit batch request: '',
                 Exc (TransportError ''connection refused'')]),
         [Post (BASE_URL @ ''/data/batch.json'') [] 30]) \<and>
   get_batch_readings default_client rejecting_world None None None None None None None None
     None None ''csv'' 5 3600 =
   Some (Inl (HydrologyAPIError [Lit ''No status URL provided in batch response'']),
         [Post (BASE_URL @ ''/data/batch.json'') [] 30])"
proof -
  have a: "session_post offline_world (base_url default_client @ ''/data/batch.json'')
             (batch_params None None None None None None None None None None)
             (timeout default_client) = Inl (TransportError ''connection refused'')"
    by (simp add: offline_world_def mock_simps)
  have b: "\<exists>r. session_post rejecting_world (base_url default_client @ ''/data/batch.json'')
                 (batch_params None None None None None None None None None None)
                 (timeout default_client) = Inr r \<and>
               raise_for_status r = None \<and>
               (headers r ''Location'' = None \<or> headers r ''Location'' = Some [])"
    by (simp add: rejecting_world_def mock_simps)
  from submission_failure_no_polling
         [of offline_world default_client None None None None None None None None None None
            "TransportError ''connection refused''" "''csv''" 5 3600, THEN conjunct1] a
  have 1: "get_batch_readings default_client offline_world None None None None None None None
             None None None ''csv'' 5 3600 =
           Some (Inl (HydrologyAPIError
                        [Lit ''Failed to submit batch request: '',
                         Exc (TransportError ''connection refused'')]),
                 [Post (BASE_URL @ ''/data/batch.json'') [] 30])"
    by (simp add: no_filters default_client_def)
  from submission_failure_no_polling
         [of rejecting_world default_client None None None None None None None None None None
            _ "''csv''" 5 3600, THEN conjunct2] b
  have 2: "get_batch_readings default_client rejecting_world None None None None None None None
             None None None ''csv'' 5 3600 =
           Some (Inl (HydrologyAPIError [Lit ''No status URL provided in batch response'']),
                 [Post (BASE_URL @ ''/data/batch.json'') [] 30])"
    by (simp add: no_filters default_client_def)
  from 1 2 show ?thesis by simp
qed





text \<open>
  Claim C10, as stated, fails: \<open>elapsed\<close> at the first check is the difference of two
  readings of the clock, not zero. With \<open>max_wait_time = 0\<close> and a clock that has advanced
  between the two readings, the timeout is raised after the POST and before any GET.
\<close>

theorem timeout_before_any_poll:
  "get_batch_readings default_client completed_world None None None None None None None None
     None None ''csv'' 5 0 =
   Some (Inl (HydrologyAPIError [Lit ''Batch request timed out after '', IntV 0, Lit '' seconds'']), [Post (BASE_URL @ ''/data/batch.json'') [] 30])"
proof -
  have a: "accepted default_client completed_world
             (batch_params None None None None None None None None None None)
             ''http://host/status/1''"
    unfolding completed_world_def no_filters by (rule mock_accepted)
  have b: "\<not> in_time completed_world 0 0"
    by (simp add: in_time_def completed_world_def mock_simps)
  show ?thesis
    unfolding get_batch_readings_accepted [OF a] poll_loop_timed_out [OF b]
    by (simp add: no_filters default_client_def)
qed

text \<open>
  Claim C10, amended. When the POST is accepted and the first elapsed reading (the second
  reading of the clock minus the first) does not exceed \<open>max_wait_time\<close>, every result of
  the call, the timeout error included, comes after the first GET of the status URL.
\<close>

theorem timeout_after_first_poll:
  assumes "accepted c w (batch_params mids sg srl swi op ot mind maxd mineq maxeq) url"
    and "time_time w 1 - time_time w 0 \<le> of_int mw"
    and "get_batch_readings c w mids sg srl swi op ot mind maxd mineq maxeq fmt iv mw =
           Some (r, tr)"
  shows "\<exists>rest. tr =
           Post (base_url c @ ''/data/batch.json'')
             (batch_params mids sg srl swi op ot mind maxd mineq maxeq) (timeout c)
           # Get url None (timeout c) # rest"
proof -
  let ?p = "Post (base_url c @ ''/data/batch.json'')
              (batch_params mids sg srl swi op ot mind maxd mineq maxeq) (timeout c)"
  have run: "poll_loop c w url iv mw 0 [?p] = Some (r, tr)"
    using assms(1,3) by (simp add: get_batch_readings_accepted)
  have ok: "\<not> rat_of_int mw < time_time w (Suc 0) - time_time w 0"
    using assms(2) by simp
  from run show ?thesis
    apply (subst (asm) poll_loop.simps)
    apply (simp only: ok if_False)
    apply (auto split: sum.splits json.splits if_splits dest!: poll_loop_extends)
    done
qed

theorem timeout_after_first_poll_witness:
  "time_time running_world 1 - time_time running_world 0 \<le> of_int 3600 \<and>
   (\<exists>rest.
      get_batch_readings default_client running_world None None None None None None None None
        None None ''csv'' 5 3600 =
      Some (Inl (HydrologyAPIError
                   [Lit ''Batch request timed out after '', IntV 3600, Lit '' seconds'']),
            Post (BASE_URL @ ''/data/batch.json'') [] 30 # Get ''http://host/status/1'' None 30
            # rest))"
proof -
  have a: "accepted default_client running_world
             (batch_params None None None None None None None None None None)
             ''http://host/status/1''"
    unfolding running_world_def no_filters by (rule mock_accepted)
  have b: "time_time running_world 1 - time_time running_world 0 \<le> of_int 3600"
    by (simp add: running_world_def mock_world_def)
  from timeout_after_first_poll [OF a b running_world_run]
  obtain rest where
    "Post (base_url default_client @ ''/data/batch.json'')
       (batch_params None None None None None None None None None None) (timeout default_client)
     # rounds default_client running_world ''http://host/status/1'' 5 3 =
     Post (base_url default_client @ ''/data/batch.json'')
       (batch_params None None None None None None None None None None) (timeout default_client)
     # Get ''http://host/status/1'' None (timeout default_client) # rest"
    by blast
  with running_world_run
  have "get_batch_readings default_client running_world None None None None None None None None
          None None ''csv'' 5 3600 =
        Some (Inl (HydrologyAPIError
                     [Lit ''Batch request timed out after '', IntV 3600, Lit '' seconds'']),
              Post (base_url default_client @ ''/data/batch.json'')
                (batch_params None None None None None None None None None None)
                (timeout default_client)
              # Get ''http://host/status/1'' None (timeout default_client) # rest)"
    by simp
  then have "get_batch_readings default_client running_world None None None None None None None
          None None None ''csv'' 5 3600 =
        Some (Inl (HydrologyAPIError
                     [Lit ''Batch request timed out after '', IntV 3600, Lit '' seconds'']),
              Post (BASE_URL @ ''/data/batch.json'') [] 30 # Get ''http://host/status/1'' None 30
              # rest)"
    unfolding no_filters by (simp add: default_client_def)
  with b show ?thesis
    by blast
qed

section \<open>Read accessors: the properties\<close>




text \<open>
  Claim C8, as stated, fails in two ways: \<open>get_open_stations\<close> places an unknown
  \<open>observed_property\<close> in the parameters and logs nothing, and \<open>get_stations\<close> for a single
  station sends no parameters at all and logs nothing.
\<close>

theorem unknown_property_not_always_warned:
  "''bogus'' \<notin> set OBSERVED_PROPERTIES \<and>
   snd (get_open_stations default_client garbage_world (DStr ''2020-01-01'')
          (DStr ''2020-12-31'') (Some ''bogus'') None None None None None 100 0 ''json'') =
   [Get ''http://environment.data.gov.uk/hydrology/id/open/stations.json''
      (Some [(''from'', PStr ''2020-01-01''), (''to'', PStr ''2020-12-31''),
             (''_limit'', PInt 100), (''_offset'', PInt 0),
             (''observedProperty'', PStr ''bogus'')])
      30] \<and>
   snd (get_stations default_client garbage_world (Some ''3001TH'') None None None
          (Some ''bogus'') None None None None None None None ''default'' 100 0 ''json'') =
   [Get ''http://environment.data.gov.uk/hydrology/id/stations/3001TH.json'' None 30]"
proof -
  have 1: "''bogus'' \<notin> set OBSERVED_PROPERTIES"
    by (simp add: OBSERVED_PROPERTIES_def)
  have 2: "open_stations_params (DStr ''2020-01-01'') (DStr ''2020-12-31'') (Some ''bogus'') None
             None None None None 100 0 =
           [(''from'', PStr ''2020-01-01''), (''to'', PStr ''2020-12-31''),
            (''_limit'', PInt 100), (''_offset'', PInt 0), (''observedProperty'', PStr ''bogus'')]"
    by (simp add: open_stations_params_def set_str_def set_point_def)
  have 3: "snd (get_open_stations default_client garbage_world (DStr ''2020-01-01'')
                  (DStr ''2020-12-31'') (Some ''bogus'') None None None None None 100 0 ''json'') =
           [Get ''http://environment.data.gov.uk/hydrology/id/open/stations.json''
              (Some [(''from'', PStr ''2020-01-01''), (''to'', PStr ''2020-12-31''),
                     (''_limit'', PInt 100), (''_offset'', PInt 0),
                     (''observedProperty'', PStr ''bogus'')])
              30]"
    unfolding get_open_stations_def 2
    by (simp add: make_request_events default_client_def BASE_URL_def)
  have 4: "snd (get_stations default_client garbage_world (Some ''3001TH'') None None None
                  (Some ''bogus'') None None None None None None None ''default'' 100 0 ''json'') =
           [Get ''http://environment.data.gov.uk/hydrology/id/stations/3001TH.json'' None 30]"
    by (simp add: get_stations_def Let_def split_beta make_request_events default_client_def
          BASE_URL_def)
  from 1 3 4 show ?thesis by (simp only: simp_thms)
qed

text \<open>
  Claim C8, amended. When \<open>get_stations\<close> lists stations (\<open>station_id\<close> absent or empty),
  a non-empty \<open>observed_property\<close> or \<open>status\<close> is placed in the parameters of the GET
  under \<open>observedProperty\<close> or \<open>status.label\<close>, and when it is outside the known
  values a warning naming it is logged as well. The listing requests of
  \<open>get_open_stations\<close>, \<open>get_measures\<close>, \<open>get_station_measures\<close> and \<open>get_readings\<close>
  place a non-empty \<open>observed_property\<close> (and \<open>get_open_stations\<close> a non-empty
  \<open>status\<close>) in the parameters of their GET, whatever its value. A single-station lookup
  (\<open>get_stations\<close> with a non-empty \<open>station_id\<close>) and a single-measure lookup
  (\<open>get_measures\<close> with a non-empty \<open>measure_id\<close>) make one GET with no parameters and
  log nothing, whatever the filters.
\<close>

theorem unknown_filter_values_pass_through:
  fixes c w station_id rloi_id wiski_id station_guid observed_property status search latitude
    longitude distance easting northing view limit offset fmt from_date to_date
    station_wiski_id observation_type station measure_id station_rloi_id date min_date max_date
    min_inclusive_date max_inclusive_date earliest latest period
  defines "listed \<equiv>
      snd (get_stations c w station_id rloi_id wiski_id station_guid observed_property status
             search latitude longitude distance easting northing view limit offset fmt)"
    and "opened \<equiv>
      open_stations_params from_date to_date observed_property status search latitude longitude
        distance limit offset"
    and "measured \<equiv>
      measures_params station_guid station_wiski_id observed_property observation_type view limit"
    and "at_station \<equiv> station_measures_params observed_property observation_type view"
    and "read \<equiv>
      readings_params measure_id station_guid station_rloi_id station_wiski_id observed_property
        observation_type date min_date max_date min_inclusive_date max_inclusive_date earliest
        latest period view limit"
  assumes listing: "station_id = None \<or> station_id = Some []"
  shows "(\<forall>p. observed_property = Some p \<and> p \<noteq> [] \<longrightarrow>
            (\<exists>ps. Get (base_url c @ ''/id/stations.'' @ fmt) (Some ps) (timeout c) \<in> set listed \<and>
                  map_of ps ''observedProperty'' = Some (PStr p)) \<and>
            (p \<notin> set OBSERVED_PROPERTIES \<longrightarrow>
               Warning [Lit ''Unknown observed property: '', StrV p] \<in> set listed) \<and>
            Get (base_url c @ ''/id/open/stations.'' @ fmt) (Some opened) (timeout c)
              \<in> set (snd (get_open_stations c w from_date to_date observed_property status search
                            latitude longitude distance limit offset fmt)) \<and>
            map_of opened ''observedProperty'' = Some (PStr p) \<and>
            Get (base_url c @ ''/id/measures.'' @ fmt) (Some measured) (timeout c)
              \<in> set (snd (get_measures c w None station_guid station_wiski_id observed_property
                            observation_type view limit fmt)) \<and>
            map_of measured ''observedProperty'' = Some (PStr p) \<and>
            Get (base_url c @ ''/id/stations/'' @ station @ ''/measures.'' @ fmt) (Some at_station)
                (timeout c)
              \<in> set (snd (get_station_measures c w station observed_property observation_type
                            view fmt)) \<and>
            map_of at_station ''observedProperty'' = Some (PStr p) \<and>
            Get (base_url c @ ''/data/readings.'' @ fmt) (Some read) (timeout c)
              \<in> set (snd (get_readings c w measure_id station_guid station_rloi_id
                            station_wiski_id observed_property observation_type date min_date
                            max_date min_inclusive_date max_inclusive_date earliest latest period
                            view limit fmt)) \<and>
            map_of read ''observedProperty'' = Some (PStr p)) \<and>
         (\<forall>s. status = Some s \<and> s \<noteq> [] \<longrightarrow>
            (\<exists>ps. Get (base_url c @ ''/id/stations.'' @ fmt) (Some ps) (timeout c) \<in> set listed \<and>
                  map_of ps ''status.label'' = Some (PStr s)) \<and>
            (s \<notin> set STATION_STATUSES \<longrightarrow> Warning [Lit ''Unknown status: '', StrV s] \<in> set listed) \<and>
            map_of opened ''status.label'' = Some (PStr s)) \<and>
         (\<forall>sid. sid \<noteq> [] \<longrightarrow>
            snd (get_stations c w (Some sid) rloi_id wiski_id station_guid observed_property
                   status search latitude longitude distance easting northing view limit offset
                   fmt) =
              [Get (base_url c @ ''/id/stations/'' @ sid @ ''.'' @ fmt) None (timeout c)]) \<and>
         (\<forall>m. m \<noteq> [] \<longrightarrow>
            snd (get_measures c w (Some m) station_guid station_wiski_id observed_property
                   observation_type view limit fmt) =
              [Get (base_url c @ ''/id/measures/'' @ m @ ''.'' @ fmt) None (timeout c)])"
proof -
  have listed: "listed =
      warn_unknown OBSERVED_PROPERTIES ''Unknown observed property: '' observed_property @
      warn_unknown STATION_STATUSES ''Unknown status: '' status @
      [Get (base_url c @ ''/id/stations.'' @ fmt)
         (Some (fst (stations_filters rloi_id wiski_id station_guid observed_property status
                       search latitude longitude distance easting northing
                       [(''_limit'', PInt limit), (''_offset'', PInt offset),
                        (''_view'', PStr view)])))
         (timeout c)]"
    unfolding listed_def get_stations_listing [OF listing] stations_filters_log by simp
  have gets:
    "snd (get_open_stations c w from_date to_date observed_property status search latitude
            longitude distance limit offset fmt) =
       [Get (base_url c @ ''/id/open/stations.'' @ fmt) (Some opened) (timeout c)]"
    "snd (get_measures c w None station_guid station_wiski_id observed_property observation_type
            view limit fmt) =
       [Get (base_url c @ ''/id/measures.'' @ fmt) (Some measured) (timeout c)]"
    "snd (get_station_measures c w station observed_property observation_type view fmt) =
       [Get (base_url c @ ''/id/stations/'' @ station @ ''/measures.'' @ fmt) (Some at_station)
          (timeout c)]"
    "snd (get_readings c w measure_id station_guid station_rloi_id station_wiski_id
            observed_property observation_type date min_date max_date min_inclusive_date
            max_inclusive_date earliest latest period view limit fmt) =
       [Get (base_url c @ ''/data/readings.'' @ fmt) (Some read) (timeout c)]"
    unfolding opened_def measured_def at_station_def read_def
    by (simp_all add: get_open_stations_def get_measures_def get_station_measures_def
          get_readings_def Let_def make_request_events)
  have sent: "observed_property = Some p \<Longrightarrow> p \<noteq> [] \<Longrightarrow>
      map_of opened ''observedProperty'' = Some (PStr p) \<and>
      map_of measured ''observedProperty'' = Some (PStr p) \<and>
      map_of at_station ''observedProperty'' = Some (PStr p) \<and>
      map_of read ''observedProperty'' = Some (PStr p)" for p
    unfolding opened_def measured_def at_station_def read_def
    by (simp add: other_params_sent)
  have stat: "status = Some s \<Longrightarrow> s \<noteq> [] \<Longrightarrow> map_of opened ''status.label'' = Some (PStr s)" for s
    unfolding opened_def by (simp add: other_params_sent)
  show ?thesis
  proof (intro conjI allI impI; (elim conjE)?)
    fix p assume p: "observed_property = Some p" "p \<noteq> []"
    show "\<exists>ps. Get (base_url c @ ''/id/stations.'' @ fmt) (Some ps) (timeout c) \<in> set listed \<and>
               map_of ps ''observedProperty'' = Some (PStr p)"
      using p by (auto simp: listed stations_filters_sent)
    show "Warning [Lit ''Unknown observed property: '', StrV p] \<in> set listed"
      if "p \<notin> set OBSERVED_PROPERTIES"
      using p that by (simp add: listed warn_unknown_Some)
    show "map_of opened ''observedProperty'' = Some (PStr p)"
      "map_of measured ''observedProperty'' = Some (PStr p)"
      "map_of at_station ''observedProperty'' = Some (PStr p)"
      "map_of read ''observedProperty'' = Some (PStr p)"
      using sent [OF p] by simp_all
    show "Get (base_url c @ ''/id/open/stations.'' @ fmt) (Some opened) (timeout c)
            \<in> set (snd (get_open_stations c w from_date to_date observed_property status search
                          latitude longitude distance limit offset fmt))"
      "Get (base_url c @ ''/id/measures.'' @ fmt) (Some measured) (timeout c)
            \<in> set (snd (get_measures c w None station_guid station_wiski_id observed_property
                          observation_type view limit fmt))"
      "Get (base_url c @ ''/id/stations/'' @ station @ ''/measures.'' @ fmt) (Some at_station)
              (timeout c)
            \<in> set (snd (get_station_measures c w station observed_property observation_type
                          view fmt))"
      "Get (base_url c @ ''/data/readings.'' @ fmt) (Some read) (timeout c)
            \<in> set (snd (get_readings c w measure_id station_guid station_rloi_id
                          station_wiski_id observed_property observation_type date min_date
                          max_date min_inclusive_date max_inclusive_date earliest latest period
                          view limit fmt))"
      by (simp_all add: gets)
  next
    fix s assume s: "status = Some s" "s \<noteq> []"
    show "\<exists>ps. Get (base_url c @ ''/id/stations.'' @ fmt) (Some ps) (timeout c) \<in> set listed \<and>
               map_of ps ''status.label'' = Some (PStr s)"
      using s by (auto simp: listed stations_filters_sent)
    show "Warning [Lit ''Unknown status: '', StrV s] \<in> set listed"
      if "s \<notin> set STATION_STATUSES"
      using s that by (simp add: listed warn_unknown_Some)
    show "map_of opened ''status.label'' = Some (PStr s)"
      using stat [OF s] .
  next
    fix sid :: string assume "sid \<noteq> []"
    then show "snd (get_stations c w (Some sid) rloi_id wiski_id station_guid observed_property
                      status search latitude longitude distance easting northing view limit
                      offset fmt) =
                 [Get (base_url c @ ''/id/stations/'' @ sid @ ''.'' @ fmt) None (timeout c)]"
      by (rule single_lookup_events)
  next
    fix m :: string assume "m \<noteq> []"
    then show "snd (get_measures c w (Some m) station_guid station_wiski_id observed_property
                      observation_type view limit fmt) =
                 [Get (base_url c @ ''/id/measures/'' @ m @ ''.'' @ fmt) None (timeout c)]"
      by (rule single_lookup_events)
  qed
qed

theorem unknown_filter_values_pass_through_witness:
  "''bogus'' \<notin> set OBSERVED_PROPERTIES \<and> ''Dormant'' \<notin> set STATION_STATUSES \<and>
   Warning [Lit ''Unknown observed property: '', StrV ''bogus'']
     \<in> set (snd (get_stations default_client garbage_world None None None None (Some ''bogus'')
                   (Some ''Dormant'') None None None None None None ''default'' 100 0 ''json'')) \<and>
   Warning [Lit ''Unknown status: '', StrV ''Dormant'']
     \<in> set (snd (get_stations default_client garbage_world None None None None (Some ''bogus'')
                   (Some ''Dormant'') None None None None None None ''default'' 100 0 ''json'')) \<and>
   (\<exists>ps. Get (base_url default_client @ ''/id/stations.'' @ ''json'') (Some ps)
            (timeout default_client)
          \<in> set (snd (get_stations default_client garbage_world None None None None
                        (Some ''bogus'') (Some ''Dormant'') None None None None None None
                        ''default'' 100 0 ''json'')) \<and>
        map_of ps ''observedProperty'' = Some (PStr ''bogus'')) \<and>
   map_of (open_stations_params (DStr ''2020-01-01'') (DStr ''2020-12-31'') (Some ''bogus'')
             (Some ''Dormant'') None None None None 100 0) ''observedProperty'' =
     Some (PStr ''bogus'') \<and>
   snd (get_stations default_client garbage_world (Some ''3001TH'') None None None
          (Some ''bogus'') (Some ''Dormant'') None None None None None None ''default'' 100 0
          ''json'') =
     [Get (base_url default_client @ ''/id/stations/'' @ ''3001TH'' @ ''.'' @ ''json'') None
        (timeout default_client)] \<and>
   snd (get_measures default_client garbage_world (Some ''3001TH-flow'') None None
          (Some ''bogus'') None ''default'' 100 ''json'') =
     [Get (base_url default_client @ ''/id/measures/'' @ ''3001TH-flow'' @ ''.'' @ ''json'') None
        (timeout default_client)]"
proof -
  have a: "''bogus'' \<notin> set OBSERVED_PROPERTIES"
    by (simp add: OBSERVED_PROPERTIES_def)
  have b: "''Dormant'' \<notin> set STATION_STATUSES"
    by (simp add: STATION_STATUSES_def)
  have l: "(None :: string option) = None \<or> (None :: string option) = Some []"
    by simp
  note t = unknown_filter_values_pass_through
    [where station_id = None and observed_property = "Some ''bogus''"
       and status = "Some ''Dormant''" and c = default_client and w = garbage_world
       and rloi_id = None and wiski_id = None and station_guid = None and search = None
       and latitude = None and longitude = None and distance = None and easting = None
       and northing = None and view = "''default''" and limit = 100 and offset = 0
       and fmt = "''json''" and from_date = "DStr ''2020-01-01''"
       and to_date = "DStr ''2020-12-31''" and station_wiski_id = None
       and observation_type = None and station = "''abc''" and measure_id = None
       and station_rloi_id = None and date = None and min_date = None and max_date = None
       and min_inclusive_date = None and max_inclusive_date = None and earliest = False
       and latest = False and period = None, OF l]
  have p: "Some ''bogus'' = Some ''bogus'' \<and> ''bogus'' \<noteq> []"
    and s: "Some ''Dormant'' = Some ''Dormant'' \<and> ''Dormant'' \<noteq> []"
    by simp_all
  have sid: "''3001TH'' \<noteq> []" and m: "''3001TH-flow'' \<noteq> []"
    by simp_all
  note tp = t [THEN conjunct1, THEN spec, THEN mp, OF p]
  note ts = t [THEN conjunct2, THEN conjunct1, THEN spec, THEN mp, OF s]
  note t1 = t [THEN conjunct2, THEN conjunct2, THEN conjunct1, THEN spec, THEN mp, OF sid]
  note t2 = t [THEN conjunct2, THEN conjunct2, THEN conjunct2, THEN spec, THEN mp, OF m]
  from tp ts t1 t2 a b show ?thesis
    by blast
qed

text \<open>
  Claim C9. With a non-empty \<open>station_id\<close>, \<open>get_stations\<close> is the request executor on
  \<open>/id/stations/{station_id}\<close> with no parameter mapping (\<open>None\<close>): the one GET carries
  neither the filter arguments nor \<open>_limit\<close>, \<open>_offset\<close>, \<open>_view\<close>, and the result does
  not depend on them.
\<close>

theorem get_stations_single_station:
  assumes "sid \<noteq> []"
  shows "get_stations c w (Some sid) rloi_id wiski_id station_guid observed_property status
           search latitude longitude distance easting northing view limit offset fmt =
         make_request c w (''/id/stations/'' @ sid) fmt None \<and>
         snd (get_stations c w (Some sid) rloi_id wiski_id station_guid observed_property status
                search latitude longitude distance easting northing view limit offset fmt) =
         [Get (base_url c @ ''/id/stations/'' @ sid @ ''.'' @ fmt) None (timeout c)]"
proof -
  have "get_stations c w (Some sid) rloi_id wiski_id station_guid observed_property status
           search latitude longitude distance easting northing view limit offset fmt =
         make_request c w (''/id/stations/'' @ sid) fmt None"
    using assms
    by (simp add: get_stations_def Let_def split: prod.splits)
  then show ?thesis
    by (simp add: make_request_events)
qed

theorem get_stations_single_station_witness:
  "snd (get_stations default_client garbage_world (Some ''3001TH'') None None None
          (Some ''waterFlow'') (Some ''Active'') None None None None None None ''default'' 100 0
          ''json'') =
   [Get ''http://environment.data.gov.uk/hydrology/id/stations/3001TH.json'' None 30]"
proof -
  have a: "''3001TH'' \<noteq> []" by simp
  from get_stations_single_station [OF a, of default_client garbage_world None None None
      "Some ''waterFlow''" "Some ''Active''" None None None None None None "''default''" 100 0
      "''json''", THEN conjunct2]
  show ?thesis
    by (simp add: default_client_def BASE_URL_def)
qed

end
